theory Spec2Isabelle
  imports Main "HOL-Library.Word" "HOL-Library.Multiset"
begin

section \<open>The MklToTf kernel (tensorflow/core/kernels/mkl\_tfconv\_op.cc)\<close>

text \<open>
  A shallow embedding of \<^verbatim>\<open>MklToTfOp<Device, T>::Compute\<close>. The kernel reads the
  input tensor and its MKL layout descriptor from the host context, either forwards the
  input or rebuilds the TensorFlow shape from the descriptor's sizes and strides,
  allocates the output and hands both buffers to the MKL conversion.

  The host framework (\<^verbatim>\<open>OpKernel\<close>, \<^verbatim>\<open>OpKernelContext\<close>, \<^verbatim>\<open>Tensor\<close>,
  \<^verbatim>\<open>TensorShape\<close>), the descriptor class \<^verbatim>\<open>MklShape\<close> and the standard library are
  not part of the source file. Their state is modelled by records whose fields are the
  values the kernel reads, and every call the kernel makes into the host that has an
  effect is appended to the context's \<open>calls\<close>, in program order.
\<close>

subsection \<open>Data model\<close>

text \<open>C's \<^verbatim>\<open>int\<close>: 32 bits, compared as a signed value (\<open><s\<close>).\<close>

type_synonym c_int = "32 word"

text \<open>The element type enumeration; the kernel only compares its values.\<close>

datatype DataType = DT_INVALID | DT_FLOAT | DT_DOUBLE | DT_INT32 | DT_UINT8

text \<open>
  Modelled from the spec: \<^verbatim>\<open>TensorShape\<close> (tensor\_shape.h is not among the sources) is
  the ordered sequence of dimension sizes, outermost first; \<^verbatim>\<open>AddDim\<close> appends one
  dimension. The kernel passes an \<^verbatim>\<open>int\<close>, which is widened without changing its
  value, so a dimension is kept as the integer it denotes.
\<close>

type_synonym TensorShape = "int list"

definition AddDim :: "TensorShape \<Rightarrow> c_int \<Rightarrow> TensorShape" where
  "AddDim output_shape sz = output_shape @ [sint sz]"

text \<open>A buffer is identified by its address; a layout by its opaque handle.\<close>

type_synonym addr = nat
type_synonym dnnLayout_t = nat

text \<open>
  Modelled from the spec: a \<^verbatim>\<open>Tensor\<close> (tensor.h is not among the sources) is a typed
  buffer with a logical shape. Two tensor values with the same \<open>buf\<close> share their
  storage.
\<close>

record Tensor =
  dtype :: DataType
  shape :: TensorShape
  buf :: addr

text \<open>
  Modelled from the spec: \<^verbatim>\<open>flat<T>().data()\<close> yields the raw pointer to the tensor's
  buffer.
\<close>

definition flat_data :: "Tensor \<Rightarrow> addr" where
  "flat_data t = buf t"

text \<open>
  Modelled from the spec: the layout descriptor \<^verbatim>\<open>MklShape\<close> (mkl\_util.h is not among
  the sources), one field for each accessor the kernel calls: whether the tensor is in
  MKL layout, the number of dimensions, the sizes and the strides (sequences of
  \<^verbatim>\<open>int\<close>, in the engine's order) and the handle of the TensorFlow layout.
\<close>

record MklShape =
  IsMklTensor :: bool
  GetDimension :: nat
  GetSizes :: "c_int list"
  GetStrides :: "c_int list"
  GetTfLayout :: dnnLayout_t

text \<open>The descriptor's invariant: one size and one stride for each dimension.\<close>

definition wf_MklShape :: "MklShape \<Rightarrow> bool" where
  "wf_MklShape s \<longleftrightarrow>
     length (GetSizes s) = GetDimension s \<and> length (GetStrides s) = GetDimension s"

text \<open>The calls into the host and the MKL library that have an effect.\<close>

datatype call =
    SetOutput nat Tensor
  | AllocateOutput nat TensorShape DataType
  | ConvertedFlatData dnnLayout_t addr addr

datatype Status = OK | Error string

text \<open>
  Modelled from the spec: the host execution context (op\_kernel.h is not among the
  sources). \<open>inputs\<close> and \<open>mkl_shapes\<close> are what \<^verbatim>\<open>MklGetInput\<close> and
  \<^verbatim>\<open>GetMklShape\<close> read at a slot; \<open>allocator\<close> is the host allocator's answer to a
  request (a buffer, or the message of the failure); \<open>outputs\<close> are the output slots;
  \<open>status\<close> is the status of the invocation.
\<close>

record OpKernelContext =
  inputs :: "nat \<Rightarrow> Tensor"
  mkl_shapes :: "nat \<Rightarrow> MklShape"
  allocator :: "TensorShape \<Rightarrow> DataType \<Rightarrow> string + addr"
  outputs :: "nat \<rightharpoonup> Tensor"
  status :: Status
  calls :: "call list"

text \<open>
  The operator instance. The base class \<^verbatim>\<open>OpKernel\<close> holds the input and output types
  of the node; \<^verbatim>\<open>MklToTfOp\<close> adds its two attributes.
\<close>

record OpKernel =
  input_types :: "nat \<Rightarrow> DataType"
  output_types :: "nat \<Rightarrow> DataType"

record MklToTfOp = OpKernel +
  data_format_str :: string
  op_data_type :: DataType

subsection \<open>The host interface\<close>

definition MklGetInput :: "OpKernelContext \<Rightarrow> nat \<Rightarrow> Tensor" where
  "MklGetInput context n = inputs context n"

definition GetMklShape :: "OpKernelContext \<Rightarrow> nat \<Rightarrow> MklShape" where
  "GetMklShape context n = mkl_shapes context n"

definition input_type :: "MklToTfOp \<Rightarrow> nat \<Rightarrow> DataType" where
  "input_type this i = input_types this i"

definition output_type :: "MklToTfOp \<Rightarrow> nat \<Rightarrow> DataType" where
  "output_type this i = output_types this i"

text \<open>
  Modelled from the spec: \<^verbatim>\<open>SetOutput(slot, Tensor)\<close> stores the tensor (a reference to
  the same buffer) in the output slot.
\<close>

definition set_output :: "OpKernelContext \<Rightarrow> nat \<Rightarrow> Tensor \<Rightarrow> OpKernelContext" where
  "set_output context index t =
     context\<lparr>outputs := (outputs context)(index \<mapsto> t),
             calls := calls context @ [SetOutput index t]\<rparr>"

text \<open>
  Modelled from the spec: \<^verbatim>\<open>AllocateOutput(slot, shape, type)\<close> asks the host
  allocator for a tensor of the shape and of the node's output type. On success the new
  tensor is stored in the output slot and returned; on failure the status is returned
  and no slot is written.
\<close>

definition allocate_output ::
  "OpKernelContext \<Rightarrow> nat \<Rightarrow> TensorShape \<Rightarrow> DataType \<Rightarrow> (Status + Tensor) \<times> OpKernelContext"
where
  "allocate_output context index output_shape ty =
     (let context' = context\<lparr>calls := calls context @ [AllocateOutput index output_shape ty]\<rparr>
      in case allocator context output_shape ty of
           Inl msg \<Rightarrow> (Inl (Error msg), context')
         | Inr b \<Rightarrow>
             (let output_tensor = \<lparr>dtype = ty, shape = output_shape, buf = b\<rparr>
              in (Inr output_tensor,
                  context'\<lparr>outputs := (outputs context')(index \<mapsto> output_tensor)\<rparr>)))"

text \<open>
  Modelled from the spec: the failure branch of \<^verbatim>\<open>OP_REQUIRES_OK\<close> records the status
  in the context (an earlier failure is kept) before the kernel returns.
\<close>

definition CtxFailureWithWarning :: "OpKernelContext \<Rightarrow> Status \<Rightarrow> OpKernelContext" where
  "CtxFailureWithWarning context s =
     context\<lparr>status := (if status context = OK then s else status context)\<rparr>"

text \<open>
  Modelled from the spec: \<^verbatim>\<open>MklShape::GetConvertedFlatData\<close> is the external conversion
  primitive; it is recorded with the layout handle and the two buffers it is given.
\<close>

definition GetConvertedFlatData ::
  "OpKernelContext \<Rightarrow> MklShape \<Rightarrow> dnnLayout_t \<Rightarrow> addr \<Rightarrow> addr \<Rightarrow> OpKernelContext"
where
  "GetConvertedFlatData context input_shape output_layout input_buffer output_buffer =
     context\<lparr>calls := calls context
                @ [ConvertedFlatData output_layout input_buffer output_buffer]\<rparr>"

text \<open>\<^verbatim>\<open>CHECK_EQ\<close> ends the process when its operands differ.\<close>

datatype fatal = CheckEqFailed DataType DataType

definition CHECK_EQ :: "DataType \<Rightarrow> DataType \<Rightarrow> fatal + unit" where
  "CHECK_EQ a b = (if a = b then Inr () else Inl (CheckEqFailed a b))"

subsection \<open>Shape reconstruction (lines 74 to 92)\<close>

text \<open>
  The first loop: for \<open>i\<close> from 0 below \<^verbatim>\<open>GetDimension()\<close>, push the pair of the
  \<open>i\<close>-th size and the \<open>i\<close>-th stride.
\<close>

function push_pairs ::
  "MklShape \<Rightarrow> nat \<Rightarrow> (c_int \<times> c_int) list \<Rightarrow> (c_int \<times> c_int) list"
where
  "push_pairs input_shape i shape_size =
     (if i < GetDimension input_shape
      then push_pairs input_shape (Suc i)
             (shape_size @ [(GetSizes input_shape ! i, GetStrides input_shape ! i)])
      else shape_size)"
  by pat_completeness auto
termination
  by (relation "measure (\<lambda>(input_shape, i, shape_size). GetDimension input_shape - i)") auto

declare push_pairs.simps [simp del]

text \<open>The comparator of the sort: \<open>first\<close> is the size, \<open>second\<close> the stride.\<close>

definition sort_comp :: "c_int \<times> c_int \<Rightarrow> c_int \<times> c_int \<Rightarrow> bool" where
  "sort_comp a b \<longleftrightarrow> (snd b <s snd a) \<or> (snd a = snd b \<and> fst b <s fst a)"

text \<open>
  \<^verbatim>\<open>std::sort\<close>. The C++ standard fixes its result, not its algorithm: the result is a
  permutation of the range in which no element is ordered before an earlier one
  (\<open>std_sort_post\<close>). The executable model is an insertion sort driven by the
  comparator; \<open>std_sort_post_unique\<close> below shows that for \<open>sort_comp\<close> every
  result the standard allows is this one.
\<close>

fun insert_by :: "('a \<Rightarrow> 'a \<Rightarrow> bool) \<Rightarrow> 'a \<Rightarrow> 'a list \<Rightarrow> 'a list" where
  "insert_by cmp x [] = [x]"
| "insert_by cmp x (y # ys) =
     (if cmp x y then x # y # ys else y # insert_by cmp x ys)"

fun std_sort :: "('a \<Rightarrow> 'a \<Rightarrow> bool) \<Rightarrow> 'a list \<Rightarrow> 'a list" where
  "std_sort cmp [] = []"
| "std_sort cmp (x # xs) = insert_by cmp x (std_sort cmp xs)"

definition std_sort_post :: "('a \<Rightarrow> 'a \<Rightarrow> bool) \<Rightarrow> 'a list \<Rightarrow> 'a list \<Rightarrow> bool" where
  "std_sort_post cmp xs ys \<longleftrightarrow> mset ys = mset xs \<and> sorted_wrt (\<lambda>a b. \<not> cmp b a) ys"

text \<open>The second loop: add the size of every pair, in order, to the output shape.\<close>

fun add_dims :: "(c_int \<times> c_int) list \<Rightarrow> TensorShape \<Rightarrow> TensorShape" where
  "add_dims [] output_shape = output_shape"
| "add_dims (s_s # rest) output_shape = add_dims rest (AddDim output_shape (fst s_s))"

definition reconstruct_shape :: "MklShape \<Rightarrow> TensorShape" where
  "reconstruct_shape input_shape =
     (let shape_size = push_pairs input_shape 0 [];
          shape_size = std_sort sort_comp shape_size
      in add_dims shape_size [])"

subsection \<open>Compute\<close>

text \<open>
  The result is the outcome (\<open>Inl\<close> when a \<^verbatim>\<open>CHECK\<close> ended the process, \<open>Inr ()\<close>
  when \<^verbatim>\<open>Compute\<close> returned), the operator instance and the context as they are at that
  point.
\<close>

definition Compute ::
  "MklToTfOp \<Rightarrow> OpKernelContext \<Rightarrow> (fatal + unit) \<times> MklToTfOp \<times> OpKernelContext"
where
  "Compute this context =
     (let input_tensor = MklGetInput context 0;
          input_shape = GetMklShape context 0
      in if \<not> IsMklTensor input_shape then
           (Inr (), this, set_output context 0 input_tensor)
         else
           let input_data_type = input_type this 0;
               output_data_type = output_type this 0
           in case CHECK_EQ (op_data_type this) input_data_type of
                Inl f \<Rightarrow> (Inl f, this, context)
              | Inr _ \<Rightarrow>
             (case CHECK_EQ (op_data_type this) output_data_type of
                Inl f \<Rightarrow> (Inl f, this, context)
              | Inr _ \<Rightarrow>
             (let output_shape = reconstruct_shape input_shape
              in case allocate_output context 0 output_shape (output_type this 0) of
                   (Inl s, context) \<Rightarrow> (Inr (), this, CtxFailureWithWarning context s)
                 | (Inr output_tensor, context) \<Rightarrow>
                     (let output_layout = GetTfLayout input_shape;
                          input_buffer = flat_data input_tensor;
                          output_buffer = flat_data output_tensor
                      in (Inr (), this,
                          GetConvertedFlatData context input_shape output_layout
                            input_buffer output_buffer)))))"

subsection \<open>The ordering of the specification\<close>

text \<open>
  The sizes and strides of a descriptor as pairs, in the descriptor's order.
\<close>

definition descriptor_pairs :: "MklShape \<Rightarrow> (c_int \<times> c_int) list" where
  "descriptor_pairs s = zip (GetSizes s) (GetStrides s)"

text \<open>
  "Descending stride, ties broken by descending size": \<open>a\<close> may stand before \<open>b\<close>
  when its stride is larger, or the strides are equal and its size is not smaller.
\<close>

definition desc_stride_then_size :: "c_int \<times> c_int \<Rightarrow> c_int \<times> c_int \<Rightarrow> bool" where
  "desc_stride_then_size a b \<longleftrightarrow>
     sint (snd a) > sint (snd b) \<or> (sint (snd a) = sint (snd b) \<and> sint (fst a) \<ge> sint (fst b))"

text \<open>\<open>ys\<close> is the list \<open>pairs\<close> sorted by that rule.\<close>

definition sorted_by_spec :: "(c_int \<times> c_int) list \<Rightarrow> (c_int \<times> c_int) list \<Rightarrow> bool" where
  "sorted_by_spec pairs ys \<longleftrightarrow> mset ys = mset pairs \<and> sorted_wrt desc_stride_then_size ys"

text \<open>The calls a run has added to the context, and the conversions among them.\<close>

definition new_calls :: "OpKernelContext \<Rightarrow> OpKernelContext \<Rightarrow> call list" where
  "new_calls context context' = drop (length (calls context)) (calls context')"

fun is_conversion :: "call \<Rightarrow> bool" where
  "is_conversion (ConvertedFlatData l src dst) = True"
| "is_conversion _ = False"

subsection \<open>Example inputs\<close>

text \<open>
  The descriptor of the specification's example, a plain descriptor, two allocators and
  builders for a context and an operator instance, on which the kernel is run below.
\<close>

definition example_shape :: MklShape where
  "example_shape =
     \<lparr>IsMklTensor = True, GetDimension = 3, GetSizes = [3, 4, 2], GetStrides = [1, 12, 6],
      GetTfLayout = 7\<rparr>"

definition example_input :: Tensor where
  "example_input = \<lparr>dtype = DT_FLOAT, shape = [24], buf = 100\<rparr>"

definition example_context ::
  "MklShape \<Rightarrow> (TensorShape \<Rightarrow> DataType \<Rightarrow> string + addr) \<Rightarrow> OpKernelContext" where
  "example_context s alloc =
     \<lparr>inputs = (\<lambda>n. example_input), mkl_shapes = (\<lambda>n. s), allocator = alloc,
      outputs = Map.empty, status = OK, calls = []\<rparr>"

definition example_op :: "DataType \<Rightarrow> DataType \<Rightarrow> DataType \<Rightarrow> MklToTfOp" where
  "example_op tin tout t =
     \<lparr>input_types = (\<lambda>i. tin), output_types = (\<lambda>i. tout),
      data_format_str = ''NCHW'', op_data_type = t\<rparr>"

definition plain_shape :: MklShape where
  "plain_shape =
     \<lparr>IsMklTensor = False, GetDimension = 0, GetSizes = [], GetStrides = [],
      GetTfLayout = 0\<rparr>"

definition scalar_shape :: MklShape where
  "scalar_shape =
     \<lparr>IsMklTensor = True, GetDimension = 0, GetSizes = [], GetStrides = [],
      GetTfLayout = 3\<rparr>"

definition accepting_allocator :: "TensorShape \<Rightarrow> DataType \<Rightarrow> string + addr" where
  "accepting_allocator sh ty = Inr 200"

definition refusing_allocator :: "TensorShape \<Rightarrow> DataType \<Rightarrow> string + addr" where
  "refusing_allocator sh ty = Inl ''out of memory''"

section \<open>Properties\<close>

lemma push_pairs_eq:
  "push_pairs s i acc =
     acc @ map (\<lambda>k. (GetSizes s ! k, GetStrides s ! k)) [i ..< GetDimension s]"
proof (induction s i acc rule: push_pairs.induct)
  case (1 s i acc)
  show ?case
  proof (cases "i < GetDimension s")
    case True
    then show ?thesis
      using "1.IH" by (simp add: push_pairs.simps [of s i acc] upt_conv_Cons)
  next
    case False
    then show ?thesis by (simp add: push_pairs.simps [of s i acc])
  qed
qed

subsection \<open>The comparator is a strict total order\<close>

lemma sort_comp_sint:
  "sort_comp a b \<longleftrightarrow>
     sint (snd b) < sint (snd a) \<or> (sint (snd a) = sint (snd b) \<and> sint (fst b) < sint (fst a))"
  by (auto simp: sort_comp_def word_sless_alt intro: signed_word_eqI)

lemma c_int_eq_iff: "(a :: c_int) = b \<longleftrightarrow> sint a = sint b"
  by (auto intro: signed_word_eqI)

lemma sort_comp_irrefl: "\<not> sort_comp a a"
  by (simp add: sort_comp_sint)

lemma sort_comp_trans: "sort_comp a b \<Longrightarrow> sort_comp b c \<Longrightarrow> sort_comp a c"
  by (auto simp: sort_comp_sint)

lemma sort_comp_asym: "sort_comp a b \<Longrightarrow> \<not> sort_comp b a"
  by (auto simp: sort_comp_sint)

lemma sort_comp_total: "a \<noteq> b \<Longrightarrow> sort_comp a b \<or> sort_comp b a"
  by (cases a; cases b) (auto simp: sort_comp_sint c_int_eq_iff)

lemma not_sort_comp_iff: "\<not> sort_comp b a \<longleftrightarrow> desc_stride_then_size a b"
  by (auto simp: sort_comp_sint desc_stride_then_size_def)

subsection \<open>The sort\<close>

lemma mset_insert_by: "mset (insert_by cmp x xs) = add_mset x (mset xs)"
  by (induction xs) simp_all

lemma mset_std_sort: "mset (std_sort cmp xs) = mset xs"
  by (induction xs) (simp_all add: mset_insert_by)

lemma set_insert_by: "set (insert_by cmp x xs) = insert x (set xs)"
  by (induction xs) auto

lemma sorted_insert_by:
  "sorted_wrt (\<lambda>a b. \<not> sort_comp b a) xs \<Longrightarrow>
   sorted_wrt (\<lambda>a b. \<not> sort_comp b a) (insert_by sort_comp x xs)"
proof (induction xs)
  case Nil
  then show ?case by simp
next
  case (Cons y ys)
  show ?case
  proof (cases "sort_comp x y")
    case True
    have "\<not> sort_comp z x" if "z \<in> set (y # ys)" for z
    proof
      assume zx: "sort_comp z x"
      have "\<not> sort_comp z y" using that Cons.prems by (auto simp: sort_comp_irrefl)
      moreover have "sort_comp z y" using zx True by (rule sort_comp_trans)
      ultimately show False by simp
    qed
    with True Cons.prems show ?thesis by simp
  next
    case False
    from Cons.prems have tl: "sorted_wrt (\<lambda>a b. \<not> sort_comp b a) ys"
      and hd: "\<forall>z\<in>set ys. \<not> sort_comp z y"
      by simp_all
    have "sorted_wrt (\<lambda>a b. \<not> sort_comp b a) (insert_by sort_comp x ys)"
      using tl by (rule Cons.IH)
    moreover have "\<forall>z\<in>set (insert_by sort_comp x ys). \<not> sort_comp z y"
      using hd False by (simp add: set_insert_by)
    ultimately show ?thesis using False by simp
  qed
qed

lemma sorted_std_sort: "sorted_wrt (\<lambda>a b. \<not> sort_comp b a) (std_sort sort_comp xs)"
  by (induction xs) (simp_all add: sorted_insert_by)

lemma std_sort_post_std_sort: "std_sort_post sort_comp xs (std_sort sort_comp xs)"
  by (simp add: std_sort_post_def mset_std_sort sorted_std_sort)

lemma sorted_wrt_sort_comp_unique:
  "sorted_wrt (\<lambda>a b. \<not> sort_comp b a) xs \<Longrightarrow> sorted_wrt (\<lambda>a b. \<not> sort_comp b a) ys \<Longrightarrow>
   mset xs = mset ys \<Longrightarrow> xs = ys"
proof (induction xs arbitrary: ys)
  case Nil
  then show ?case by simp
next
  case (Cons x xs)
  have "length ys = Suc (length xs)"
    using arg_cong [OF Cons.prems(3), of size] by simp
  then obtain y ys' where ys: "ys = y # ys'"
    by (auto simp: length_Suc_conv)
  have "x = y"
  proof (rule ccontr)
    assume ne: "x \<noteq> y"
    have "set (x # xs) = set (y # ys')"
      using Cons.prems(3) unfolding ys by (rule mset_eq_setD)
    then have "x \<in> set (y # ys')" and "y \<in> set (x # xs)"
      by auto
    with ne have "x \<in> set ys'" and "y \<in> set xs"
      by auto
    from \<open>x \<in> set ys'\<close> have 1: "\<not> sort_comp x y" using Cons.prems(2) ys by auto
    from \<open>y \<in> set xs\<close> have 2: "\<not> sort_comp y x" using Cons.prems(1) by auto
    from 1 2 ne sort_comp_total show False by blast
  qed
  moreover have "xs = ys'"
  proof (rule Cons.IH)
    show "sorted_wrt (\<lambda>a b. \<not> sort_comp b a) xs" using Cons.prems(1) by simp
    show "sorted_wrt (\<lambda>a b. \<not> sort_comp b a) ys'" using Cons.prems(2) ys by simp
    show "mset xs = mset ys'" using Cons.prems(3) ys \<open>x = y\<close> by simp
  qed
  ultimately show ?case using ys by simp
qed

lemma std_sort_post_unique:
  "std_sort_post sort_comp xs ys \<Longrightarrow> ys = std_sort sort_comp xs"
  using sorted_wrt_sort_comp_unique [of ys "std_sort sort_comp xs"]
  by (simp add: std_sort_post_def mset_std_sort sorted_std_sort)

lemma sorted_by_spec_iff: "sorted_by_spec pairs ys \<longleftrightarrow> std_sort_post sort_comp pairs ys"
  by (simp add: sorted_by_spec_def std_sort_post_def not_sort_comp_iff)

subsection \<open>The reconstructed shape\<close>

lemma add_dims_eq: "add_dims ps sh = sh @ map (\<lambda>p. sint (fst p)) ps"
  by (induction ps arbitrary: sh) (simp_all add: AddDim_def)

lemma push_pairs_wf:
  assumes "wf_MklShape s"
  shows "push_pairs s 0 [] = descriptor_pairs s"
proof -
  have "length (GetSizes s) = GetDimension s" "length (GetStrides s) = GetDimension s"
    using assms by (simp_all add: wf_MklShape_def)
  then have "map (\<lambda>k. (GetSizes s ! k, GetStrides s ! k)) [0 ..< GetDimension s]
               = zip (GetSizes s) (GetStrides s)"
    by (intro nth_equalityI) simp_all
  then show ?thesis
    by (simp add: push_pairs_eq descriptor_pairs_def)
qed

lemma reconstruct_shape_eq:
  "reconstruct_shape s = map (\<lambda>p. sint (fst p)) (std_sort sort_comp (push_pairs s 0 []))"
  by (simp add: reconstruct_shape_def add_dims_eq)

lemma length_reconstruct_shape: "length (reconstruct_shape s) = GetDimension s"
proof -
  have "length (std_sort sort_comp (push_pairs s 0 [])) = length (push_pairs s 0 [])"
    using arg_cong [OF mset_std_sort [of sort_comp "push_pairs s 0 []"], of size] by simp
  then show ?thesis by (simp add: reconstruct_shape_eq push_pairs_eq)
qed

lemma reconstruct_shape_wf:
  assumes "wf_MklShape s"
  shows "reconstruct_shape s = map (\<lambda>p. sint (fst p)) (std_sort sort_comp (descriptor_pairs s))"
  using assms by (simp add: reconstruct_shape_eq push_pairs_wf)

lemma map_fst_descriptor_pairs:
  assumes "wf_MklShape s"
  shows "map fst (descriptor_pairs s) = GetSizes s"
  using assms by (simp add: descriptor_pairs_def wf_MklShape_def)

lemma mset_reconstruct_shape:
  assumes "wf_MklShape s"
  shows "mset (reconstruct_shape s) = mset (map sint (GetSizes s))"
proof -
  have "mset (reconstruct_shape s)
          = image_mset (\<lambda>p. sint (fst p)) (mset (std_sort sort_comp (descriptor_pairs s)))"
    by (simp add: reconstruct_shape_wf [OF assms])
  also have "\<dots> = image_mset (\<lambda>p. sint (fst p)) (mset (descriptor_pairs s))"
    by (simp only: mset_std_sort)
  also have "\<dots> = mset (map sint (map fst (descriptor_pairs s)))"
    by (simp add: comp_def)
  finally show ?thesis
    by (simp only: map_fst_descriptor_pairs [OF assms])
qed

lemma prod_list_reconstruct_shape:
  assumes "wf_MklShape s"
  shows "prod_list (reconstruct_shape s) = prod_list (map sint (GetSizes s))"
  using arg_cong [OF mset_reconstruct_shape [OF assms], of prod_mset]
  by (simp only: prod_mset_prod_list)

subsection \<open>The paths of Compute\<close>

lemma Compute_pass_through:
  assumes "\<not> IsMklTensor (GetMklShape context 0)"
  shows "Compute this context = (Inr (), this, set_output context 0 (MklGetInput context 0))"
  using assms by (simp add: Compute_def Let_def)

lemma Compute_check_failed:
  assumes "IsMklTensor (GetMklShape context 0)"
    and "\<not> (op_data_type this = input_type this 0 \<and> op_data_type this = output_type this 0)"
  shows "\<exists>f. Compute this context = (Inl f, this, context)"
  using assms by (auto simp: Compute_def Let_def CHECK_EQ_def)

lemma Compute_alloc_failed:
  assumes "IsMklTensor (GetMklShape context 0)"
    and "op_data_type this = input_type this 0"
    and "op_data_type this = output_type this 0"
    and "allocator context (reconstruct_shape (GetMklShape context 0)) (output_type this 0)
           = Inl msg"
  shows "Compute this context =
           (Inr (), this,
            context\<lparr>status := (if status context = OK then Error msg else status context),
                    calls := calls context
                      @ [AllocateOutput 0 (reconstruct_shape (GetMklShape context 0))
                           (output_type this 0)]\<rparr>)"
  using assms
  by (simp add: Compute_def Let_def CHECK_EQ_def allocate_output_def CtxFailureWithWarning_def)

lemma Compute_converted:
  assumes "IsMklTensor (GetMklShape context 0)"
    and "op_data_type this = input_type this 0"
    and "op_data_type this = output_type this 0"
    and "allocator context (reconstruct_shape (GetMklShape context 0)) (output_type this 0)
           = Inr b"
  shows "Compute this context =
           (Inr (), this,
            context\<lparr>outputs := (outputs context)(0 \<mapsto>
                       \<lparr>dtype = output_type this 0,
                        shape = reconstruct_shape (GetMklShape context 0), buf = b\<rparr>),
                    calls := calls context
                      @ [AllocateOutput 0 (reconstruct_shape (GetMklShape context 0))
                           (output_type this 0),
                         ConvertedFlatData (GetTfLayout (GetMklShape context 0))
                           (buf (MklGetInput context 0)) b]\<rparr>)"
  using assms
  by (simp add: Compute_def Let_def CHECK_EQ_def allocate_output_def GetConvertedFlatData_def
      flat_data_def)

lemma Compute_requests_reconstructed_shape:
  assumes "IsMklTensor (GetMklShape context 0)"
    and "op_data_type this = input_type this 0"
    and "op_data_type this = output_type this 0"
  shows "\<exists>rest. calls (snd (snd (Compute this context))) =
           calls context
             @ AllocateOutput 0 (reconstruct_shape (GetMklShape context 0)) (output_type this 0)
             # rest"
proof (cases "allocator context (reconstruct_shape (GetMklShape context 0)) (output_type this 0)")
  case (Inl msg)
  show ?thesis
    by (simp add: Compute_alloc_failed [OF assms Inl])
next
  case (Inr b)
  show ?thesis
    by (simp add: Compute_converted [OF assms Inr])
qed

lemma new_calls_append [simp]:
  "new_calls context (context'\<lparr>calls := calls context @ cs\<rparr>) = cs"
  by (simp add: new_calls_def)

subsection \<open>Evaluating the examples\<close>

lemmas example_defs =
  example_shape_def example_input_def example_context_def example_op_def plain_shape_def
  scalar_shape_def accepting_allocator_def refusing_allocator_def
  GetMklShape_def MklGetInput_def input_type_def output_type_def wf_MklShape_def
  descriptor_pairs_def

section \<open>The claims\<close>

text \<open>
  C1. Whenever the descriptor reports the MKL layout (and the kernel's type checks
  pass), the pairs of the descriptor have exactly one arrangement sorted by descending
  stride, ties broken by descending size; the reconstructed shape is the list of the
  sizes of that arrangement, and it is the shape \<open>Compute\<close> asks the allocator for.
\<close>

theorem C1_shape_is_sizes_by_descending_stride:
  assumes "IsMklTensor (GetMklShape context 0)"
    and "op_data_type this = input_type this 0"
    and "op_data_type this = output_type this 0"
    and "wf_MklShape (GetMklShape context 0)"
  shows "\<exists>ys rest.
           sorted_by_spec (descriptor_pairs (GetMklShape context 0)) ys
         \<and> (\<forall>zs. sorted_by_spec (descriptor_pairs (GetMklShape context 0)) zs \<longrightarrow> zs = ys)
         \<and> reconstruct_shape (GetMklShape context 0) = map (\<lambda>p. sint (fst p)) ys
         \<and> calls (snd (snd (Compute this context))) =
               calls context
                 @ AllocateOutput 0 (map (\<lambda>p. sint (fst p)) ys) (output_type this 0) # rest"
proof -
  let ?s = "GetMklShape context 0"
  let ?ys = "std_sort sort_comp (descriptor_pairs ?s)"
  have 1: "sorted_by_spec (descriptor_pairs ?s) ?ys"
    by (simp only: sorted_by_spec_iff std_sort_post_std_sort)
  have 2: "\<forall>zs. sorted_by_spec (descriptor_pairs ?s) zs \<longrightarrow> zs = ?ys"
    by (simp only: sorted_by_spec_iff) (blast dest: std_sort_post_unique)
  have 3: "reconstruct_shape ?s = map (\<lambda>p. sint (fst p)) ?ys"
    using assms(4) by (rule reconstruct_shape_wf)
  from Compute_requests_reconstructed_shape [OF assms(1-3)]
  obtain rest where "calls (snd (snd (Compute this context))) =
      calls context @ AllocateOutput 0 (reconstruct_shape ?s) (output_type this 0) # rest"
    by blast
  with 1 2 3 show ?thesis by metis
qed

theorem C1_witness:
  "reconstruct_shape
     (GetMklShape (example_context example_shape accepting_allocator) 0) = [4, 2, 3]"
proof -
  let ?c = "example_context example_shape accepting_allocator"
  let ?o = "example_op DT_FLOAT DT_FLOAT DT_FLOAT"
  have h1: "IsMklTensor (GetMklShape ?c 0)" by (simp add: example_defs)
  have h2: "op_data_type ?o = input_type ?o 0" by (simp add: example_defs)
  have h3: "op_data_type ?o = output_type ?o 0" by (simp add: example_defs)
  have h4: "wf_MklShape (GetMklShape ?c 0)" by (simp add: example_defs)
  from C1_shape_is_sizes_by_descending_stride [OF h1 h2 h3 h4]
  obtain ys where u: "\<forall>zs. sorted_by_spec (descriptor_pairs (GetMklShape ?c 0)) zs \<longrightarrow> zs = ys"
    and sh: "reconstruct_shape (GetMklShape ?c 0) = map (\<lambda>p. sint (fst p)) ys"
    by blast
  have "sorted_by_spec (descriptor_pairs (GetMklShape ?c 0)) [(4, 12), (2, 6), (3, 1)]"
    by (simp add: example_defs sorted_by_spec_def desc_stride_then_size_def)
  with u have "ys = [(4, 12), (2, 6), (3, 1)]" by blast
  with sh show ?thesis by simp
qed

text \<open>
  C2. When the descriptor does not report the MKL layout, \<open>Compute\<close> returns normally
  whatever the type tags are; the only change to the context is that output slot 0
  holds the input tensor itself, and the only call made is that \<open>set_output\<close>: no
  allocation and no conversion.
\<close>

theorem C2_pass_through:
  assumes "\<not> IsMklTensor (GetMklShape context 0)"
  shows "Compute this context =
           (Inr (), this,
            context\<lparr>outputs := (outputs context)(0 \<mapsto> MklGetInput context 0),
                    calls := calls context @ [SetOutput 0 (MklGetInput context 0)]\<rparr>)"
  using assms by (simp add: Compute_pass_through set_output_def)

theorem C2_witness:
  "\<not> IsMklTensor (GetMklShape (example_context plain_shape refusing_allocator) 0)
   \<and> Compute (example_op DT_INT32 DT_DOUBLE DT_FLOAT)
         (example_context plain_shape refusing_allocator) =
       (Inr (), example_op DT_INT32 DT_DOUBLE DT_FLOAT,
        (example_context plain_shape refusing_allocator)
          \<lparr>outputs := [0 \<mapsto> example_input], calls := [SetOutput 0 example_input]\<rparr>)"
proof -
  let ?c = "example_context plain_shape refusing_allocator"
  have h: "\<not> IsMklTensor (GetMklShape ?c 0)" by (simp add: example_defs)
  have "outputs ?c = Map.empty" "calls ?c = []" "MklGetInput ?c 0 = example_input"
    by (simp_all add: example_context_def MklGetInput_def)
  with h C2_pass_through [OF h, of "example_op DT_INT32 DT_DOUBLE DT_FLOAT"]
  show ?thesis by simp
qed

text \<open>
  C3. On the MKL path, when the operator's type, the input type and the output type
  are not all equal, \<open>Compute\<close> ends in a failed \<^verbatim>\<open>CHECK_EQ\<close> with the context exactly
  as it was: nothing allocated, nothing converted, no output written.
\<close>

theorem C3_type_mismatch_is_fatal:
  assumes "IsMklTensor (GetMklShape context 0)"
    and "\<not> (op_data_type this = input_type this 0 \<and> op_data_type this = output_type this 0)"
  shows "\<exists>f. Compute this context = (Inl f, this, context)"
  using assms by (rule Compute_check_failed)

theorem C3_witness:
  "IsMklTensor (GetMklShape (example_context example_shape accepting_allocator) 0)
   \<and> (\<exists>f. Compute (example_op DT_FLOAT DT_INT32 DT_FLOAT)
              (example_context example_shape accepting_allocator) =
            (Inl f, example_op DT_FLOAT DT_INT32 DT_FLOAT,
             example_context example_shape accepting_allocator))"
proof -
  let ?c = "example_context example_shape accepting_allocator"
  let ?o = "example_op DT_FLOAT DT_INT32 DT_FLOAT"
  have h1: "IsMklTensor (GetMklShape ?c 0)" by (simp add: example_defs)
  have h2: "\<not> (op_data_type ?o = input_type ?o 0 \<and> op_data_type ?o = output_type ?o 0)"
    by (simp add: example_defs)
  from h1 C3_type_mismatch_is_fatal [OF h1 h2] show ?thesis by simp
qed

text \<open>
  C4. For every descriptor that has one size and one stride for each of its
  dimensions, the product of the dimensions of the reconstructed shape is the product
  of the descriptor's sizes.
\<close>

theorem C4_element_count_preserved:
  assumes "wf_MklShape s"
  shows "prod_list (reconstruct_shape s) = prod_list (map sint (GetSizes s))"
  using assms by (rule prod_list_reconstruct_shape)

theorem C4_witness:
  "wf_MklShape example_shape \<and> prod_list (reconstruct_shape example_shape) = 24"
proof -
  have h: "wf_MklShape example_shape" by (simp add: example_defs)
  from h C4_element_count_preserved [OF h] show ?thesis by (simp add: example_shape_def)
qed

text \<open>
  C5. On the MKL path with matching types, when the allocator refuses the request
  \<open>Compute\<close> returns with a failure status in the context, the output slots as they
  were, and the allocation request as its only call: the conversion is not invoked.
\<close>

theorem C5_allocation_failure_aborts:
  assumes "IsMklTensor (GetMklShape context 0)"
    and "op_data_type this = input_type this 0"
    and "op_data_type this = output_type this 0"
    and "allocator context (reconstruct_shape (GetMklShape context 0)) (output_type this 0)
           = Inl msg"
  shows "\<exists>context'.
           Compute this context = (Inr (), this, context')
         \<and> outputs context' = outputs context
         \<and> status context' \<noteq> OK
         \<and> (status context = OK \<longrightarrow> status context' = Error msg)
         \<and> new_calls context context' =
               [AllocateOutput 0 (reconstruct_shape (GetMklShape context 0))
                  (output_type this 0)]
         \<and> filter is_conversion (new_calls context context') = []"
  by (simp add: Compute_alloc_failed [OF assms])

theorem C5_witness:
  "\<exists>context'.
     Compute (example_op DT_FLOAT DT_FLOAT DT_FLOAT)
       (example_context example_shape refusing_allocator)
       = (Inr (), example_op DT_FLOAT DT_FLOAT DT_FLOAT, context')
     \<and> outputs context' = Map.empty
     \<and> status context' = Error ''out of memory''
     \<and> filter is_conversion
          (new_calls (example_context example_shape refusing_allocator) context') = []"
proof -
  let ?c = "example_context example_shape refusing_allocator"
  let ?o = "example_op DT_FLOAT DT_FLOAT DT_FLOAT"
  have h1: "IsMklTensor (GetMklShape ?c 0)" by (simp add: example_defs)
  have h2: "op_data_type ?o = input_type ?o 0" by (simp add: example_defs)
  have h3: "op_data_type ?o = output_type ?o 0" by (simp add: example_defs)
  have h4: "allocator ?c (reconstruct_shape (GetMklShape ?c 0)) (output_type ?o 0)
              = Inl ''out of memory''"
    by (simp add: example_context_def refusing_allocator_def)
  have "outputs ?c = Map.empty" "status ?c = OK"
    by (simp_all add: example_context_def)
  with C5_allocation_failure_aborts [OF h1 h2 h3 h4] show ?thesis
    by auto
qed

text \<open>
  C6. The comparator of the sort is a strict total order on pairs: irreflexive,
  asymmetric, transitive, and any two different pairs are ordered one way or the
  other, so no tie remains. Hence exactly one list meets the post-condition of
  \<^verbatim>\<open>std::sort\<close> for given pairs: the sorted order is unique.
\<close>

theorem C6_comparator_total_order:
  "\<not> sort_comp a a
   \<and> (sort_comp a b \<longrightarrow> \<not> sort_comp b a)
   \<and> (sort_comp a b \<longrightarrow> sort_comp b c \<longrightarrow> sort_comp a c)
   \<and> (a \<noteq> b \<longrightarrow> sort_comp a b \<or> sort_comp b a)
   \<and> (\<exists>!ys. std_sort_post sort_comp pairs ys)"
proof -
  have "\<exists>!ys. std_sort_post sort_comp pairs ys"
    using std_sort_post_std_sort std_sort_post_unique by blast
  then show ?thesis
    using sort_comp_irrefl sort_comp_asym sort_comp_trans sort_comp_total by blast
qed

theorem C6_witness:
  "((5, 4) :: c_int \<times> c_int) \<noteq> (2, 4)
   \<and> sort_comp (5, 4) (2, 4) \<and> sort_comp (2, 4) (3, 1) \<and> sort_comp (5, 4) (3, 1)
   \<and> \<not> sort_comp (2, 4) (5, 4)
   \<and> (\<exists>!ys. std_sort_post sort_comp [(5, 4), (2, 4)] ys)"
proof -
  have ab: "sort_comp (5, 4) (2, 4)" and bc: "sort_comp (2, 4) (3, 1)"
    by (simp_all add: sort_comp_def word_sless_alt)
  have ne: "((5, 4) :: c_int \<times> c_int) \<noteq> (2, 4)" by simp
  from ab bc ne C6_comparator_total_order [of "(5, 4)" "(2, 4)" "(3, 1)" "[(5, 4), (2, 4)]"]
  show ?thesis by blast
qed

text \<open>
  C7. Two invocations that differ only in the operator's \<open>data_format_str\<close> have the
  same outcome and leave the same context, in particular the same requested and
  allocated output shape: \<open>Compute\<close> does not read the attribute.
\<close>

theorem C7_format_attribute_not_read:
  "Compute (this\<lparr>data_format_str := fmt\<rparr>) context =
     (case Compute this context of
        (r, this', context') \<Rightarrow> (r, this'\<lparr>data_format_str := fmt\<rparr>, context'))"
  by (simp add: Compute_def Let_def input_type_def output_type_def
      split: sum.splits prod.splits)

theorem C7_witness:
  "snd (snd (Compute (example_op DT_FLOAT DT_FLOAT DT_FLOAT\<lparr>data_format_str := ''NHWC''\<rparr>)
               (example_context example_shape accepting_allocator)))
   = snd (snd (Compute (example_op DT_FLOAT DT_FLOAT DT_FLOAT)
               (example_context example_shape accepting_allocator)))"
  by (simp add: C7_format_attribute_not_read split: prod.splits)

text \<open>
  C8. On the MKL path with matching types and a successful allocation, \<open>Compute\<close>
  makes exactly two calls: the allocation, then one conversion whose source is the
  input tensor's buffer, whose layout is the handle held by the input's descriptor and
  whose destination is the buffer of the tensor just allocated, which is in output
  slot 0.
\<close>

theorem C8_conversion_invoked_once:
  assumes "IsMklTensor (GetMklShape context 0)"
    and "op_data_type this = input_type this 0"
    and "op_data_type this = output_type this 0"
    and "allocator context (reconstruct_shape (GetMklShape context 0)) (output_type this 0)
           = Inr b"
  shows "\<exists>context' output_tensor.
           Compute this context = (Inr (), this, context')
         \<and> outputs context' 0 = Some output_tensor
         \<and> output_tensor = \<lparr>dtype = output_type this 0,
                              shape = reconstruct_shape (GetMklShape context 0), buf = b\<rparr>
         \<and> new_calls context context' =
               [AllocateOutput 0 (reconstruct_shape (GetMklShape context 0))
                  (output_type this 0),
                ConvertedFlatData (GetTfLayout (GetMklShape context 0))
                  (flat_data (MklGetInput context 0)) (flat_data output_tensor)]
         \<and> length (filter is_conversion (new_calls context context')) = 1"
  by (simp add: Compute_converted [OF assms] flat_data_def)

theorem C8_witness:
  "\<exists>context'.
     Compute (example_op DT_FLOAT DT_FLOAT DT_FLOAT)
       (example_context example_shape accepting_allocator)
       = (Inr (), example_op DT_FLOAT DT_FLOAT DT_FLOAT, context')
     \<and> filter is_conversion
          (new_calls (example_context example_shape accepting_allocator) context')
        = [ConvertedFlatData 7 100 200]"
proof -
  let ?c = "example_context example_shape accepting_allocator"
  let ?o = "example_op DT_FLOAT DT_FLOAT DT_FLOAT"
  have h1: "IsMklTensor (GetMklShape ?c 0)" by (simp add: example_defs)
  have h2: "op_data_type ?o = input_type ?o 0" by (simp add: example_defs)
  have h3: "op_data_type ?o = output_type ?o 0" by (simp add: example_defs)
  have h4: "allocator ?c (reconstruct_shape (GetMklShape ?c 0)) (output_type ?o 0) = Inr 200"
    by (simp add: example_context_def accepting_allocator_def)
  have "GetTfLayout (GetMklShape ?c 0) = 7" "flat_data (MklGetInput ?c 0) = 100"
    by (simp_all add: example_defs flat_data_def)
  with C8_conversion_invoked_once [OF h1 h2 h3 h4] show ?thesis
    by (auto simp: flat_data_def)
qed

text \<open>
  C9. Every invocation returns the operator instance it was given: \<open>Compute\<close> writes
  neither \<open>data_format_str\<close> nor \<open>op_data_type\<close>, nor the types held by the base class.
\<close>

theorem C9_operator_unchanged:
  "fst (snd (Compute this context)) = this"
  by (simp add: Compute_def Let_def split: sum.splits prod.splits)

theorem C9_witness:
  "fst (snd (Compute (example_op DT_FLOAT DT_FLOAT DT_FLOAT)
               (example_context example_shape accepting_allocator)))
   = example_op DT_FLOAT DT_FLOAT DT_FLOAT"
  by (rule C9_operator_unchanged)

text \<open>
  C10. On the MKL path with matching types, for a descriptor that has one size and
  one stride for each dimension, the shape \<open>Compute\<close> asks the allocator for has
  exactly \<open>GetDimension\<close> dimensions, and these are, as a multiset, the descriptor's
  sizes; for a descriptor without dimensions it is the empty shape.
\<close>

theorem C10_shape_is_permutation_of_sizes:
  assumes "IsMklTensor (GetMklShape context 0)"
    and "op_data_type this = input_type this 0"
    and "op_data_type this = output_type this 0"
    and "wf_MklShape (GetMklShape context 0)"
  shows "\<exists>sh rest.
           calls (snd (snd (Compute this context))) =
             calls context @ AllocateOutput 0 sh (output_type this 0) # rest
         \<and> sh = reconstruct_shape (GetMklShape context 0)
         \<and> length sh = GetDimension (GetMklShape context 0)
         \<and> mset sh = mset (map sint (GetSizes (GetMklShape context 0)))
         \<and> (GetDimension (GetMklShape context 0) = 0 \<longrightarrow> sh = [])"
proof -
  let ?s = "GetMklShape context 0"
  from Compute_requests_reconstructed_shape [OF assms(1-3)]
  obtain rest where c: "calls (snd (snd (Compute this context))) =
      calls context @ AllocateOutput 0 (reconstruct_shape ?s) (output_type this 0) # rest"
    by blast
  have l: "length (reconstruct_shape ?s) = GetDimension ?s"
    by (rule length_reconstruct_shape)
  have m: "mset (reconstruct_shape ?s) = mset (map sint (GetSizes ?s))"
    using assms(4) by (rule mset_reconstruct_shape)
  from l have z: "GetDimension ?s = 0 \<longrightarrow> reconstruct_shape ?s = []"
    by auto
  show ?thesis
    by (rule exI [of _ "reconstruct_shape ?s"], rule exI [of _ rest]) (simp add: c l m z)
qed

theorem C10_witness:
  "\<exists>rest. calls (snd (snd (Compute (example_op DT_FLOAT DT_FLOAT DT_FLOAT)
                              (example_context scalar_shape accepting_allocator)))) =
     AllocateOutput 0 [] DT_FLOAT # rest"
proof -
  let ?c = "example_context scalar_shape accepting_allocator"
  let ?o = "example_op DT_FLOAT DT_FLOAT DT_FLOAT"
  have h1: "IsMklTensor (GetMklShape ?c 0)" by (simp add: example_defs)
  have h2: "op_data_type ?o = input_type ?o 0" by (simp add: example_defs)
  have h3: "op_data_type ?o = output_type ?o 0" by (simp add: example_defs)
  have h4: "wf_MklShape (GetMklShape ?c 0)" by (simp add: example_defs)
  have "GetDimension (GetMklShape ?c 0) = 0" "calls ?c = []" "output_type ?o 0 = DT_FLOAT"
    by (simp_all add: example_defs)
  with C10_shape_is_permutation_of_sizes [OF h1 h2 h3 h4] show ?thesis
    by auto
qed

end
